theory Spec2Isabelle
  imports Complex_Main "HOL-Library.Word"
begin

section \<open>Data shared by the driver entry points\<close>

type_synonym u64 = "64 word"
type_synonym u32 = "32 word"

text \<open>
  The path constants of \<^verbatim>\<open>Paths.h\<close> are computed at start-up by hashing path strings
  (\<^verbatim>\<open>init_paths\<close>); the header is not among the translated files, so the constants are
  a parameter of every function that reads them.
\<close>

record Paths =
  HEAD_ID :: u64
  LEFT_HAND_ID :: u64
  RIGHT_HAND_ID :: u64
  LEFT_CONTROLLER_HAPTIC_ID :: u64
  RIGHT_CONTROLLER_HAPTIC_ID :: u64
  LEFT_CONTROLLER_BUTTON_IDS :: "u64 list"
  RIGHT_CONTROLLER_BUTTON_IDS :: "u64 list"

text \<open>The fields of the \<^verbatim>\<open>Settings\<close> singleton that the translated functions read.\<close>

record Settings =
  m_hapticsMinDuration :: real
  m_hapticsLowDurationAmplitudeMultiplier :: real
  m_hapticsLowDurationRange :: real
  m_hapticsAmplitudeCurve :: real
  m_refreshRate :: int

text \<open>
  \<^verbatim>\<open>float\<close> and \<^verbatim>\<open>double\<close> values are real numbers and their arithmetic is exact:
  rounding is not part of the model. A division by zero has no real result (the machine
  goes on with an infinity or a NaN); the model does not follow the computation past it,
  and the value computed is \<open>None\<close>.
\<close>

type_synonym cfloat = "real option"

text \<open>Values that the entry points only pass on, declared in \<^verbatim>\<open>bindings.h\<close>.\<close>

typedecl OculusHand
typedecl OpenvrProperty
typedecl AlvrButtonValue

record AlvrQuat =
  qx :: real
  qy :: real
  qz :: real
  qw :: real

record AlvrDeviceMotion =
  deviceID :: u64
  orientation :: AlvrQuat
  position :: "real \<times> real \<times> real"

datatype ETrackingResult = TrackingResult_Uninitialized | TrackingResult_Running_OK

record HmdQuaternion =
  hw :: real
  hx :: real
  hy :: real
  hz :: real

definition HmdQuaternion_Init :: "real \<Rightarrow> real \<Rightarrow> real \<Rightarrow> real \<Rightarrow> HmdQuaternion" where
  "HmdQuaternion_Init w x y z = \<lparr>hw = w, hx = x, hy = y, hz = z\<rparr>"

record DriverPose =
  poseIsValid :: bool
  result :: ETrackingResult
  deviceIsConnected :: bool
  qWorldFromDriverRotation :: HmdQuaternion
  qDriverFromHeadRotation :: HmdQuaternion
  qRotation :: HmdQuaternion
  vecPosition :: "real \<times> real \<times> real"

datatype Hand = LeftHand | RightHand

datatype DeviceRef = HeadDevice | HandDevice Hand

datatype ETrackedDeviceProperty =
    Prop_DisplayFrequency_Float
  | Prop_DeviceBatteryPercentage_Float
  | Prop_DeviceIsCharging_Bool

text \<open>
  Calls that leave the translated files: callbacks into the Rust side, the OpenVR host,
  and methods of classes whose bodies are elsewhere. Each function of the model returns
  the calls it makes, in order.
\<close>

datatype call =
    HapticsSend u64 cfloat real cfloat
  | PoseHistory_OnPoseUpdated u64 AlvrDeviceMotion
  | TrackedDevicePoseUpdated u32 DriverPose
  | ViveTrackerProxy_update
  | Controller_onPoseUpdate Hand real AlvrDeviceMotion OculusHand
  | Controller_SetButton Hand u64 AlvrButtonValue
  | TrackedDevice_set_prop DeviceRef OpenvrProperty
  | SetFloatProperty u64 ETrackedDeviceProperty real
  | SetBoolProperty u64 ETrackedDeviceProperty bool
  | Settings_Load
  | New_ClientConnection
  | New_CEncoder
  | CEncoder_Initialize
  | CEncoder_Start
  | CEncoder_OnStreamStart
  | CEncoder_OnPacketLoss
  | DirectModeComponent_SetEncoder
  | ClientConnection_OnFecFailure
  | LogError string

text \<open>OpenVR's invalid handles (\<^verbatim>\<open>openvr_driver.h\<close>).\<close>

definition k_unTrackedDeviceIndexInvalid :: u32 where
  "k_unTrackedDeviceIndexInvalid = 0xFFFFFFFF"

definition k_ulInvalidPropertyContainer :: u64 where
  "k_ulInvalidPropertyContainer = 0"

text \<open>The members of \<^verbatim>\<open>TrackedDevice\<close> that the entry points read.\<close>

record TrackedDevice =
  object_id :: u32
  prop_container :: u64

text \<open>
  \<^verbatim>\<open>Statistics\<close>: the three members written by \<^verbatim>\<open>SetBitrateParameters\<close>. Any other
  member lives in the record's extension and is untouched by the model.
\<close>

record Statistics =
  m_enableAdaptiveBitrate :: bool
  m_adaptiveBitrateMaximum :: u64
  m_bitrate :: u64

record ClientConnection =
  m_Statistics :: Statistics

record CEncoder =
  IsConnected :: bool

record OvrHmd = TrackedDevice +
  IsHMD :: bool
  m_streamComponentsInitialized :: bool
  m_pose :: DriverPose
  m_Listener :: "ClientConnection option"
  m_encoder :: "CEncoder option"
  m_directModeComponent :: bool
  m_viveTrackerProxy :: bool
  m_refreshRateSet :: bool

text \<open>
  The provider \<^verbatim>\<open>g_driver_provider\<close>. Its controller pointers share the objects
  with the headset's \<^verbatim>\<open>m_leftController\<close> and \<^verbatim>\<open>m_rightController\<close>, so the
  controllers are stored once, here; \<open>None\<close> is the null pointer. The raw pointers of
  \<^verbatim>\<open>tracked_devices\<close> are references to these three objects.
\<close>

record DriverProvider =
  hmd :: "OvrHmd option"
  left_controller :: "TrackedDevice option"
  right_controller :: "TrackedDevice option"
  tracked_devices :: "u64 \<rightharpoonup> DeviceRef"

section \<open>Haptics\<close>


text \<open>The clamp of \<^verbatim>\<open>RunFrame\<close>: durations below half the minimum are raised to it.\<close>

definition clamp_duration :: "Settings \<Rightarrow> real \<Rightarrow> real" where
  "clamp_duration st duration =
     (if duration < m_hapticsMinDuration st * 0.5
      then m_hapticsMinDuration st * 0.5 else duration)"

text \<open>
  The amplitude curve. \<open>libm_pow\<close> stands for the C library's \<^verbatim>\<open>pow\<close> at a
  non-integer exponent; \<^verbatim>\<open>pow(x, 2)\<close> is the square.
\<close>

definition shape_amplitude ::
  "(real \<Rightarrow> real \<Rightarrow> real) \<Rightarrow> Settings \<Rightarrow> real \<Rightarrow> real \<Rightarrow> cfloat" where
  "shape_amplitude libm_pow st duration amplitude =
     (let t = duration - 0.5 * m_hapticsMinDuration st * (1 - m_hapticsLowDurationRange st) in
      if t = 0 then None
      else
        let den = (m_hapticsMinDuration st * m_hapticsLowDurationRange st)\<^sup>2 * 0.25 / t + t in
        if den = 0 then None
        else Some (libm_pow
               (amplitude *
                  ((m_hapticsLowDurationAmplitudeMultiplier st - 1) * m_hapticsMinDuration st *
                     m_hapticsLowDurationRange st / den + 1))
               (1 - m_hapticsAmplitudeCurve st)))"

definition remap_duration :: "Settings \<Rightarrow> real \<Rightarrow> cfloat" where
  "remap_duration st duration =
     (if duration = 0 then None
      else Some ((m_hapticsMinDuration st)\<^sup>2 * 0.25 / duration + duration))"

definition shaped_duration :: "Settings \<Rightarrow> real \<Rightarrow> cfloat" where
  "shaped_duration st duration = remap_duration st (clamp_duration st duration)"

text \<open>\<^verbatim>\<open>ptr && handle == ptr->prop_container\<close>, with the short circuit on the null pointer.\<close>

definition owns_container :: "TrackedDevice option \<Rightarrow> u64 \<Rightarrow> bool" where
  "owns_container controller handle =
     (case controller of None \<Rightarrow> False | Some c \<Rightarrow> handle = prop_container c)"

record HapticVibration =
  containerHandle :: u64
  componentHandle :: u64
  fDurationSeconds :: real
  fFrequency :: real
  fAmplitude :: real

datatype VREvent = VREvent_Input_HapticVibration HapticVibration | VREvent_Other u32

definition on_haptic_vibration ::
  "Paths \<Rightarrow> (real \<Rightarrow> real \<Rightarrow> real) \<Rightarrow> Settings \<Rightarrow> DriverProvider \<Rightarrow> HapticVibration \<Rightarrow> call list" where
  "on_haptic_vibration P libm_pow st s haptics_info =
     (let duration = clamp_duration st (fDurationSeconds haptics_info);
          amplitude = shape_amplitude libm_pow st duration (fAmplitude haptics_info);
          duration' = remap_duration st duration
      in if owns_container (left_controller s) (containerHandle haptics_info)
         then [HapticsSend (LEFT_CONTROLLER_HAPTIC_ID P) duration' (fFrequency haptics_info) amplitude]
         else if owns_container (right_controller s) (containerHandle haptics_info)
         then [HapticsSend (RIGHT_CONTROLLER_HAPTIC_ID P) duration' (fFrequency haptics_info) amplitude]
         else [])"

text \<open>
  \<^verbatim>\<open>RunFrame\<close> drains the host's event queue; \<open>events\<close> is what
  \<^verbatim>\<open>PollNextEvent\<close> hands over, in order.
\<close>

fun RunFrame ::
  "Paths \<Rightarrow> (real \<Rightarrow> real \<Rightarrow> real) \<Rightarrow> Settings \<Rightarrow> DriverProvider \<Rightarrow> VREvent list \<Rightarrow> call list" where
  "RunFrame P libm_pow st s [] = []"
| "RunFrame P libm_pow st s (VREvent_Input_HapticVibration haptics_info # events) =
     on_haptic_vibration P libm_pow st s haptics_info @ RunFrame P libm_pow st s events"
| "RunFrame P libm_pow st s (VREvent_Other ty # events) = RunFrame P libm_pow st s events"

section \<open>Tracking ingest\<close>

text \<open>The three build targets selected by the preprocessor.\<close>

datatype Platform = Win32 | Apple | Linux

text \<open>\<^verbatim>\<open>m_encoder && m_encoder->IsConnected()\<close>.\<close>

definition encoder_connected :: "CEncoder option \<Rightarrow> bool" where
  "encoder_connected enc = (case enc of None \<Rightarrow> False | Some e \<Rightarrow> IsConnected e)"

definition OvrHmd_OnPoseUpdated ::
  "Platform \<Rightarrow> Settings \<Rightarrow> u64 \<Rightarrow> AlvrDeviceMotion \<Rightarrow> OvrHmd \<Rightarrow> OvrHmd \<times> call list" where
  "OvrHmd_OnPoseUpdated plat st targetTimestampNs motion h =
     (if object_id h \<noteq> k_unTrackedDeviceIndexInvalid then
        let pose = \<lparr>poseIsValid = True,
                    result = TrackingResult_Running_OK,
                    deviceIsConnected = True,
                    qWorldFromDriverRotation = HmdQuaternion_Init 1 0 0 0,
                    qDriverFromHeadRotation = HmdQuaternion_Init 1 0 0 0,
                    qRotation = HmdQuaternion_Init (qw (orientation motion)) (qx (orientation motion))
                                  (qy (orientation motion)) (qz (orientation motion)),
                    vecPosition = position motion\<rparr>;
            set_rate = (plat = Linux \<and> \<not> m_refreshRateSet h \<and> encoder_connected (m_encoder h))
        in (h\<lparr>m_pose := pose, m_refreshRateSet := (m_refreshRateSet h \<or> set_rate)\<rparr>,
            [PoseHistory_OnPoseUpdated targetTimestampNs motion,
             TrackedDevicePoseUpdated (object_id h) pose]
            @ (if m_viveTrackerProxy h then [ViveTrackerProxy_update] else [])
            @ (if set_rate
               then [SetFloatProperty (prop_container h) Prop_DisplayFrequency_Float
                       (real_of_int (m_refreshRate st))]
               else []))
      else (h, []))"

text \<open>One iteration of the loop of \<^verbatim>\<open>SetTracking\<close>.\<close>

definition SetTracking_motion ::
  "Paths \<Rightarrow> Platform \<Rightarrow> Settings \<Rightarrow> u64 \<Rightarrow> real \<Rightarrow> OculusHand \<Rightarrow> OculusHand \<Rightarrow>
     AlvrDeviceMotion \<Rightarrow> DriverProvider \<Rightarrow> DriverProvider \<times> call list" where
  "SetTracking_motion P plat st targetTimestampNs controllerPoseTimeOffsetS leftHand rightHand motion s =
     (case (if deviceID motion = HEAD_ID P then hmd s else None) of
        Some h \<Rightarrow>
          (case OvrHmd_OnPoseUpdated plat st targetTimestampNs motion h of
             (h', cs) \<Rightarrow> (s\<lparr>hmd := Some h'\<rparr>, cs))
      | None \<Rightarrow>
          if deviceID motion = LEFT_HAND_ID P \<and> left_controller s \<noteq> None
          then (s, [Controller_onPoseUpdate LeftHand controllerPoseTimeOffsetS motion leftHand])
          else if deviceID motion = RIGHT_HAND_ID P \<and> right_controller s \<noteq> None
          then (s, [Controller_onPoseUpdate RightHand controllerPoseTimeOffsetS motion rightHand])
          else (s, []))"

text \<open>
  \<^verbatim>\<open>SetTracking\<close>: \<open>deviceMotions\<close> is the array of \<^verbatim>\<open>motionsCount\<close> motions
  the caller hands over.
\<close>

fun SetTracking ::
  "Paths \<Rightarrow> Platform \<Rightarrow> Settings \<Rightarrow> u64 \<Rightarrow> real \<Rightarrow> AlvrDeviceMotion list \<Rightarrow> OculusHand \<Rightarrow> OculusHand \<Rightarrow>
     DriverProvider \<Rightarrow> DriverProvider \<times> call list" where
  "SetTracking P plat st ts offs [] leftHand rightHand s = (s, [])"
| "SetTracking P plat st ts offs (motion # deviceMotions) leftHand rightHand s =
     (case SetTracking_motion P plat st ts offs leftHand rightHand motion s of
        (s1, cs1) \<Rightarrow>
          (case SetTracking P plat st ts offs deviceMotions leftHand rightHand s1 of
             (s2, cs2) \<Rightarrow> (s2, cs1 @ cs2)))"

text \<open>Views of a list of calls: the calls into the pose history and into a controller's pose sink.\<close>

fun is_pose_history_call :: "call \<Rightarrow> bool" where
  "is_pose_history_call (PoseHistory_OnPoseUpdated t m) = True"
| "is_pose_history_call c = False"

fun is_controller_pose_call :: "Hand \<Rightarrow> call \<Rightarrow> bool" where
  "is_controller_pose_call hand (Controller_onPoseUpdate hand' offs m oc) = (hand = hand')"
| "is_controller_pose_call hand c = False"

text \<open>The headset is registered and activated, and both controllers exist.\<close>

definition devices_ready :: "DriverProvider \<Rightarrow> bool" where
  "devices_ready s =
     ((case hmd s of None \<Rightarrow> False | Some h \<Rightarrow> object_id h \<noteq> k_unTrackedDeviceIndexInvalid)
      \<and> left_controller s \<noteq> None \<and> right_controller s \<noteq> None)"

definition distinct_device_ids :: "Paths \<Rightarrow> bool" where
  "distinct_device_ids P = distinct [HEAD_ID P, LEFT_HAND_ID P, RIGHT_HAND_ID P]"

definition known_device :: "Paths \<Rightarrow> AlvrDeviceMotion \<Rightarrow> bool" where
  "known_device P motion =
     (deviceID motion = HEAD_ID P \<or> deviceID motion = LEFT_HAND_ID P \<or> deviceID motion = RIGHT_HAND_ID P)"

section \<open>Streaming start and stop\<close>

text \<open>
  Thrown values: the driver's own \<^verbatim>\<open>Exception\<close> with its \<^verbatim>\<open>what()\<close>, a
  \<^verbatim>\<open>std::runtime_error\<close> with its message, an \<^verbatim>\<open>AvException\<close> with the two
  arguments of its constructor, or anything else.
\<close>

datatype thrown =
    AlvrException string
  | RuntimeError string
  | AvException string int
  | OtherThrown string

datatype crash = NullPointer | Uncaught thrown

definition encoder_error_message :: "string \<Rightarrow> string" where
  "encoder_error_message cause =
     ''Your GPU does not meet the requirements for video encoding. ''
     @ ''If you get this error after changing some settings, you can revert them by''
     @ '' '' @ ''deleting the file '' @ [CHR 0x22] @ ''session.json'' @ [CHR 0x22]
     @ '' in the installation folder.'' @ [CHR 0x0A]
     @ ''Failed to initialize CEncoder:'' @ '' '' @ cause @ [CHR 0x0A]"

text \<open>
  The \<^verbatim>\<open>try\<close> block around \<^verbatim>\<open>m_encoder->Initialize\<close>: the handler catches
  \<^verbatim>\<open>Exception\<close> only and reports it with \<^verbatim>\<open>Error\<close>; anything else leaves the function.
\<close>

definition encoder_initialize_caught :: "thrown option \<Rightarrow> thrown + call list" where
  "encoder_initialize_caught init_result =
     (case init_result of
        None \<Rightarrow> Inr []
      | Some (AlvrException w) \<Rightarrow> Inr [LogError (encoder_error_message w)]
      | Some e \<Rightarrow> Inl e)"

text \<open>
  \<^verbatim>\<open>OvrHmd::StartStreaming\<close>. \<open>init_result\<close> is what \<^verbatim>\<open>CEncoder::Initialize\<close> does on
  this call (\<open>None\<close>: it returns); \<open>new_listener\<close> and \<open>new_encoder\<close> are the objects
  the two constructors deliver.
\<close>

definition OvrHmd_StartStreaming ::
  "Platform \<Rightarrow> thrown option \<Rightarrow> ClientConnection \<Rightarrow> CEncoder \<Rightarrow> OvrHmd \<Rightarrow> crash + (OvrHmd \<times> call list)" where
  "OvrHmd_StartStreaming plat init_result new_listener new_encoder h =
     (if m_streamComponentsInitialized h then Inr (h, [])
      else
        let h1 = h\<lparr>m_Listener := Some new_listener\<rparr> in
        if IsHMD h1 then
          (case plat of
             Win32 \<Rightarrow>
               let h2 = h1\<lparr>m_encoder := Some new_encoder\<rparr> in
               (case encoder_initialize_caught init_result of
                  Inl e \<Rightarrow> Inl (Uncaught e)
                | Inr logged \<Rightarrow>
                    if m_directModeComponent h2
                    then Inr (h2\<lparr>m_streamComponentsInitialized := True\<rparr>,
                              [New_ClientConnection, New_CEncoder, CEncoder_Initialize] @ logged
                              @ [CEncoder_Start, DirectModeComponent_SetEncoder, CEncoder_OnStreamStart])
                    else Inl NullPointer)
           | Apple \<Rightarrow>
               Inr (h1\<lparr>m_encoder := Some new_encoder, m_streamComponentsInitialized := True\<rparr>,
                    [New_ClientConnection, New_CEncoder])
           | Linux \<Rightarrow>
               Inr (h1\<lparr>m_encoder := Some new_encoder, m_streamComponentsInitialized := True\<rparr>,
                    [New_ClientConnection, New_CEncoder, CEncoder_Start]))
        else Inr (h1\<lparr>m_streamComponentsInitialized := True\<rparr>, [New_ClientConnection]))"

definition InitializeStreaming ::
  "Platform \<Rightarrow> thrown option \<Rightarrow> ClientConnection \<Rightarrow> CEncoder \<Rightarrow> DriverProvider \<Rightarrow>
     crash + (DriverProvider \<times> call list)" where
  "InitializeStreaming plat init_result new_listener new_encoder s =
     (case hmd s of
        None \<Rightarrow> Inr (s, [Settings_Load])
      | Some h \<Rightarrow>
          (case OvrHmd_StartStreaming plat init_result new_listener new_encoder h of
             Inl c \<Rightarrow> Inl c
           | Inr (h', cs) \<Rightarrow> Inr (s\<lparr>hmd := Some h'\<rparr>, Settings_Load # cs)))"

definition DeinitializeStreaming :: "DriverProvider \<Rightarrow> DriverProvider \<times> call list" where
  "DeinitializeStreaming s = (s, [])"

section \<open>Inbound events\<close>

definition VideoErrorReportReceive :: "DriverProvider \<Rightarrow> crash + (DriverProvider \<times> call list)" where
  "VideoErrorReportReceive s =
     (case hmd s of
        None \<Rightarrow> Inr (s, [])
      | Some h \<Rightarrow>
          (case m_Listener h of
             None \<Rightarrow> Inr (s, [])
           | Some l \<Rightarrow>
               (case m_encoder h of
                  None \<Rightarrow> Inl NullPointer
                | Some e \<Rightarrow> Inr (s, [ClientConnection_OnFecFailure, CEncoder_OnPacketLoss]))))"




definition SetButton ::
  "Paths \<Rightarrow> u64 \<Rightarrow> AlvrButtonValue \<Rightarrow> DriverProvider \<Rightarrow> crash + (DriverProvider \<times> call list)" where
  "SetButton P path v s =
     (if path \<in> set (LEFT_CONTROLLER_BUTTON_IDS P) then
        (case left_controller s of
           None \<Rightarrow> Inl NullPointer
         | Some c \<Rightarrow> Inr (s, [Controller_SetButton LeftHand path v]))
      else if path \<in> set (RIGHT_CONTROLLER_BUTTON_IDS P) then
        (case right_controller s of
           None \<Rightarrow> Inl NullPointer
         | Some c \<Rightarrow> Inr (s, [Controller_SetButton RightHand path v]))
      else Inr (s, []))"

definition SetBitrateParameters :: "u64 \<Rightarrow> bool \<Rightarrow> u64 \<Rightarrow> DriverProvider \<Rightarrow> DriverProvider" where
  "SetBitrateParameters bitrate_mbs adaptive_bitrate_enabled bitrate_max s =
     (case hmd s of
        None \<Rightarrow> s
      | Some h \<Rightarrow>
          (case m_Listener h of
             None \<Rightarrow> s
           | Some l \<Rightarrow>
               let stats = m_Statistics l;
                   stats' = (if adaptive_bitrate_enabled
                             then stats\<lparr>m_enableAdaptiveBitrate := True,
                                        m_adaptiveBitrateMaximum := bitrate_max\<rparr>
                             else stats\<lparr>m_enableAdaptiveBitrate := False,
                                        m_bitrate := bitrate_mbs\<rparr>)
               in s\<lparr>hmd := Some (h\<lparr>m_Listener := Some (l\<lparr>m_Statistics := stats'\<rparr>)\<rparr>)\<rparr>))"

section \<open>Driver start-up\<close>

text \<open>\<^verbatim>\<open>std::map::insert\<close> keeps the entry of a key that is already present.\<close>

definition map_insert :: "('k \<rightharpoonup> 'v) \<Rightarrow> 'k \<Rightarrow> 'v \<Rightarrow> ('k \<rightharpoonup> 'v)" where
  "map_insert m k v = (case m k of None \<Rightarrow> m(k \<mapsto> v) | Some old \<Rightarrow> m)"

text \<open>
  The controllers the constructor of \<^verbatim>\<open>OvrHmd\<close> creates: none when the setting
  \<^verbatim>\<open>m_disableController\<close> is on.
\<close>

definition OvrHmd_controllers ::
  "bool \<Rightarrow> TrackedDevice \<Rightarrow> TrackedDevice \<Rightarrow> TrackedDevice option \<times> TrackedDevice option" where
  "OvrHmd_controllers m_disableController new_left new_right =
     (if \<not> m_disableController then (Some new_left, Some new_right) else (None, None))"

definition DriverProvider_Init ::
  "Paths \<Rightarrow> OvrHmd \<Rightarrow> TrackedDevice option \<times> TrackedDevice option \<Rightarrow> DriverProvider" where
  "DriverProvider_Init P new_hmd controllers =
     (case controllers of (m_leftController, m_rightController) \<Rightarrow>
        \<lparr>hmd = Some new_hmd,
         left_controller = m_leftController,
         right_controller = m_rightController,
         tracked_devices =
           (let devices = map_insert Map.empty (HEAD_ID P) HeadDevice in
            if m_leftController \<noteq> None \<and> m_rightController \<noteq> None
            then map_insert (map_insert devices (LEFT_HAND_ID P) (HandDevice LeftHand))
                   (RIGHT_HAND_ID P) (HandDevice RightHand)
            else devices)\<rparr>)"

section \<open>The Vulkan context of the Linux encoder\<close>

record VkPhysicalDeviceProperties =
  props_deviceName :: string
  props_vendorID :: u32

record VkContext =
  physicalDevice :: VkPhysicalDeviceProperties
  drmContext :: bool

text \<open>
  The constructor of \<^verbatim>\<open>alvr::VkContext\<close>, as far as its two \<^verbatim>\<open>throw\<close> statements go:
  \<open>physicalDevices\<close> is what \<^verbatim>\<open>vkEnumeratePhysicalDevices\<close> lists and \<open>ret\<close> what
  \<^verbatim>\<open>av_hwdevice_ctx_init\<close> returns.
\<close>

definition VkContext_ctor ::
  "string option \<Rightarrow> VkPhysicalDeviceProperties list \<Rightarrow> bool \<Rightarrow> int \<Rightarrow> crash + VkContext" where
  "VkContext_ctor deviceName physicalDevices m_force_sw_encoding ret =
     (case find (\<lambda>props. deviceName = None \<or> deviceName = Some (props_deviceName props))
             physicalDevices of
        None \<Rightarrow> Inl (Uncaught (RuntimeError ''Failed to find vulkan device.''))
      | Some props \<Rightarrow>
          let drm = (props_vendorID props \<noteq> 0x10de);
              drm' = (if m_force_sw_encoding then False else drm)
          in if ret \<noteq> 0
             then Inl (Uncaught (AvException ''failed to initialize ffmpeg'' ret))
             else Inr \<lparr>physicalDevice = props, drmContext = drm'\<rparr>)"

section \<open>Components whose code is outside the translated files\<close>

subsection \<open>PoseHistory\<close>

text \<open>
  Modelled from the spec: the body of \<^verbatim>\<open>PoseHistory::OnPoseUpdated\<close> (PoseHistory.cpp)
  is missing. The specification describes a bounded sequence of samples ordered by
  timestamp, and a \<^verbatim>\<open>record\<close> operation that stores a sample unless its timestamp is
  not strictly greater than the most recent recorded one, in which case the sample is
  dropped. The oldest sample leaves when the capacity is exceeded.
\<close>

record PoseSample =
  sample_timestampNs :: u64
  sample_motion :: AlvrDeviceMotion

record PoseHistory =
  capacity :: nat
  samples :: "PoseSample list"

definition PoseHistory_new :: "nat \<Rightarrow> PoseHistory" where
  "PoseHistory_new n = \<lparr>capacity = n, samples = []\<rparr>"

definition latest_timestamp :: "PoseHistory \<Rightarrow> u64 option" where
  "latest_timestamp ph =
     (case samples ph of [] \<Rightarrow> None | x # xs \<Rightarrow> Some (sample_timestampNs (last (x # xs))))"

definition PoseHistory_push :: "u64 \<Rightarrow> AlvrDeviceMotion \<Rightarrow> PoseHistory \<Rightarrow> PoseHistory" where
  "PoseHistory_push timestampNs pose ph =
     (let grown = samples ph @ [\<lparr>sample_timestampNs = timestampNs, sample_motion = pose\<rparr>]
      in ph\<lparr>samples := drop (length grown - capacity ph) grown\<rparr>)"

definition PoseHistory_record :: "u64 \<Rightarrow> AlvrDeviceMotion \<Rightarrow> PoseHistory \<Rightarrow> PoseHistory" where
  "PoseHistory_record timestampNs pose ph =
     (case latest_timestamp ph of
        None \<Rightarrow> PoseHistory_push timestampNs pose ph
      | Some latest \<Rightarrow>
          if timestampNs \<le> latest then ph else PoseHistory_push timestampNs pose ph)"

text \<open>A sequence of \<^verbatim>\<open>record\<close> calls, first call first.\<close>

fun PoseHistory_records :: "(u64 \<times> AlvrDeviceMotion) list \<Rightarrow> PoseHistory \<Rightarrow> PoseHistory" where
  "PoseHistory_records [] ph = ph"
| "PoseHistory_records ((timestampNs, pose) # calls) ph =
     PoseHistory_records calls (PoseHistory_record timestampNs pose ph)"

subsection \<open>EncodePipeline\<close>

text \<open>
  Modelled from the spec: the bodies of \<^verbatim>\<open>CEncoder::OnPacketLoss\<close> and of the encode
  loop (CEncoder.cpp) are missing. The specification describes a pipeline with a
  monotonic frame counter and a keyframe-recovery flag: \<^verbatim>\<open>onPacketLoss\<close>,
  \<^verbatim>\<open>onFecFailure\<close> and \<^verbatim>\<open>insertIDR\<close> set the flag for the next cycle, and the
  next cycle marks its frame job as a keyframe request whatever the normal cadence says.
\<close>

record EncodePipeline =
  frameCounter :: nat
  keyframeRecovery :: bool

record FrameJob =
  frameIndex :: nat
  presentationTimestampNs :: u64
  predictedHeadPose :: AlvrDeviceMotion
  isKeyframeRequested :: bool

definition onPacketLoss :: "EncodePipeline \<Rightarrow> EncodePipeline" where
  "onPacketLoss e = e\<lparr>keyframeRecovery := True\<rparr>"

definition onFecFailure :: "EncodePipeline \<Rightarrow> EncodePipeline" where
  "onFecFailure e = e\<lparr>keyframeRecovery := True\<rparr>"

definition insertIDR :: "EncodePipeline \<Rightarrow> EncodePipeline" where
  "insertIDR e = e\<lparr>keyframeRecovery := True\<rparr>"

text \<open>\<open>cadence\<close>: whether the normal keyframe cadence asks for a keyframe on this tick.\<close>

definition onFrameIntervalElapsed ::
  "bool \<Rightarrow> u64 \<Rightarrow> AlvrDeviceMotion \<Rightarrow> EncodePipeline \<Rightarrow> FrameJob \<times> EncodePipeline" where
  "onFrameIntervalElapsed cadence timestampNs pose e =
     (\<lparr>frameIndex = frameCounter e,
       presentationTimestampNs = timestampNs,
       predictedHeadPose = pose,
       isKeyframeRequested = (keyframeRecovery e \<or> cadence)\<rparr>,
      e\<lparr>frameCounter := Suc (frameCounter e), keyframeRecovery := False\<rparr>)"

text \<open>The pipeline's reaction to the calls that the entry points make on the encoder.\<close>

fun EncodePipeline_calls :: "call list \<Rightarrow> EncodePipeline \<Rightarrow> EncodePipeline" where
  "EncodePipeline_calls [] e = e"
| "EncodePipeline_calls (CEncoder_OnPacketLoss # cs) e = EncodePipeline_calls cs (onPacketLoss e)"
| "EncodePipeline_calls (c # cs) e = EncodePipeline_calls cs e"

subsection \<open>BitrateController\<close>

text \<open>
  Modelled from the spec: the adjustment of the bitrate (Statistics.h) is missing. The
  specification describes two modes. In fixed mode the bitrate is the operator's constant.
  In adaptive mode every completed frame reports its timing and whether it was lost; the
  controller keeps moving averages of the round-trip latency and of the loss rate, raises
  the target additively while the latency average is under a low-water mark and no frame
  of the sliding window was lost, lowers it multiplicatively on a loss or when the average
  is over a high-water mark, and clamps the result to the interval from the minimum to the
  operator's maximum.
\<close>

record FrameFeedback =
  encodeTimeNs :: nat
  transmitTimeNs :: nat
  ackRoundTripNs :: nat
  wasLost :: bool

record BitrateParams =
  minimumBitrate :: nat
  lowWaterNs :: real
  highWaterNs :: real
  additiveStep :: nat
  decreasePercent :: nat
  smoothing :: real
  lossWindow :: nat

record BitrateController =
  stats :: Statistics
  latencyEma :: real
  lossRateEma :: real
  lossFreeFrames :: nat

definition clamp_bitrate :: "nat \<Rightarrow> nat \<Rightarrow> nat \<Rightarrow> nat" where
  "clamp_bitrate lo hi b = max lo (min hi b)"

definition BitrateController_feedback ::
  "BitrateParams \<Rightarrow> FrameFeedback \<Rightarrow> BitrateController \<Rightarrow> BitrateController" where
  "BitrateController_feedback par fb c =
     (if \<not> m_enableAdaptiveBitrate (stats c) then c
      else
        let ema = (1 - smoothing par) * latencyEma c + smoothing par * real (ackRoundTripNs fb);
            loss = (1 - smoothing par) * lossRateEma c + smoothing par * (if wasLost fb then 1 else 0);
            quiet = (if wasLost fb then 0 else Suc (lossFreeFrames c));
            current = unat (m_bitrate (stats c));
            target = (if wasLost fb \<or> highWaterNs par < ema
                      then current * decreasePercent par div 100
                      else if ema < lowWaterNs par \<and> lossWindow par \<le> quiet
                      then current + additiveStep par
                      else current);
            adjusted = clamp_bitrate (minimumBitrate par)
                         (unat (m_adaptiveBitrateMaximum (stats c))) target
        in c\<lparr>stats := (stats c)\<lparr>m_bitrate := word_of_nat adjusted\<rparr>,
              latencyEma := ema, lossRateEma := loss, lossFreeFrames := quiet\<rparr>)"

fun BitrateController_run ::
  "BitrateParams \<Rightarrow> FrameFeedback list \<Rightarrow> BitrateController \<Rightarrow> BitrateController" where
  "BitrateController_run par [] c = c"
| "BitrateController_run par (fb # fbs) c =
     BitrateController_run par fbs (BitrateController_feedback par fb c)"

text \<open>The statistics object of the running session, if there is one.\<close>

definition session_statistics :: "DriverProvider \<Rightarrow> Statistics option" where
  "session_statistics s =
     (case hmd s of
        None \<Rightarrow> None
      | Some h \<Rightarrow> (case m_Listener h of None \<Rightarrow> None | Some l \<Rightarrow> Some (m_Statistics l)))"

section \<open>Sample inputs\<close>

definition paths0 :: Paths where
  "paths0 = \<lparr>HEAD_ID = 1, LEFT_HAND_ID = 2, RIGHT_HAND_ID = 3,
              LEFT_CONTROLLER_HAPTIC_ID = 4, RIGHT_CONTROLLER_HAPTIC_ID = 5,
              LEFT_CONTROLLER_BUTTON_IDS = [10, 11],
              RIGHT_CONTROLLER_BUTTON_IDS = [20, 21]\<rparr>"

definition settings0 :: Settings where
  "settings0 = \<lparr>m_hapticsMinDuration = 1 / 100,
                 m_hapticsLowDurationAmplitudeMultiplier = 5 / 2,
                 m_hapticsLowDurationRange = 20,
                 m_hapticsAmplitudeCurve = 2 / 5,
                 m_refreshRate = 72\<rparr>"

definition pose0 :: DriverPose where
  "pose0 = \<lparr>poseIsValid = True, result = TrackingResult_Running_OK, deviceIsConnected = True,
             qWorldFromDriverRotation = HmdQuaternion_Init 1 0 0 0,
             qDriverFromHeadRotation = HmdQuaternion_Init 1 0 0 0,
             qRotation = HmdQuaternion_Init 1 0 0 0,
             vecPosition = (0, 0, 0)\<rparr>"

definition hmd0 :: OvrHmd where
  "hmd0 = \<lparr>object_id = 0, prop_container = 100, IsHMD = True,
            m_streamComponentsInitialized = False, m_pose = pose0,
            m_Listener = None, m_encoder = None, m_directModeComponent = True,
            m_viveTrackerProxy = False, m_refreshRateSet = False\<rparr>"

definition left0 :: TrackedDevice where
  "left0 = \<lparr>object_id = 1, prop_container = 101\<rparr>"

definition right0 :: TrackedDevice where
  "right0 = \<lparr>object_id = 2, prop_container = 102\<rparr>"

definition statistics0 :: Statistics where
  "statistics0 = \<lparr>m_enableAdaptiveBitrate = False, m_adaptiveBitrateMaximum = 0, m_bitrate = 30\<rparr>"

definition listener0 :: ClientConnection where
  "listener0 = \<lparr>m_Statistics = statistics0\<rparr>"

definition encoder0 :: CEncoder where
  "encoder0 = \<lparr>IsConnected = True\<rparr>"

text \<open>The provider after start-up with controllers, and with the controllers disabled.\<close>

definition provider0 :: DriverProvider where
  "provider0 = DriverProvider_Init paths0 hmd0 (OvrHmd_controllers False left0 right0)"

definition provider_headonly :: DriverProvider where
  "provider_headonly = DriverProvider_Init paths0 hmd0 (OvrHmd_controllers True left0 right0)"

text \<open>The provider once streaming has started.\<close>

definition hmd_streaming :: OvrHmd where
  "hmd_streaming = hmd0\<lparr>m_streamComponentsInitialized := True,
                         m_Listener := Some listener0, m_encoder := Some encoder0\<rparr>"

definition provider_streaming :: DriverProvider where
  "provider_streaming = provider0\<lparr>hmd := Some hmd_streaming\<rparr>"

definition motion0 :: "u64 \<Rightarrow> AlvrDeviceMotion" where
  "motion0 dev = \<lparr>deviceID = dev, orientation = \<lparr>qx = 0, qy = 0, qz = 0, qw = 1\<rparr>,
                   position = (0, 1, 0)\<rparr>"

definition pulse0 :: "u64 \<Rightarrow> real \<Rightarrow> HapticVibration" where
  "pulse0 handle duration = \<lparr>containerHandle = handle, componentHandle = 0,
                              fDurationSeconds = duration, fFrequency = 160, fAmplitude = 1\<rparr>"

text \<open>A controller for the sample session, and two frame reports.\<close>

definition bitrate_params0 :: BitrateParams where
  "bitrate_params0 = \<lparr>minimumBitrate = 5, lowWaterNs = 2000000, highWaterNs = 8000000,
                       additiveStep = 10, decreasePercent = 50, smoothing = 1 / 2,
                       lossWindow = 1\<rparr>"

definition controller0 :: "Statistics \<Rightarrow> BitrateController" where
  "controller0 st = \<lparr>stats = st, latencyEma = 0, lossRateEma = 0, lossFreeFrames = 0\<rparr>"

definition feedback0 :: "bool \<Rightarrow> FrameFeedback" where
  "feedback0 lost = \<lparr>encodeTimeNs = 1000, transmitTimeNs = 1000, ackRoundTripNs = 1000,
                     wasLost = lost\<rparr>"

section \<open>Haptic shaping and routing\<close>









lemma RunFrame_unowned:
  assumes "\<forall>e \<in> set events. \<forall>ev. e = VREvent_Input_HapticVibration ev \<longrightarrow>
             \<not> owns_container (left_controller s) (containerHandle ev) \<and>
             \<not> owns_container (right_controller s) (containerHandle ev)"
  shows "RunFrame P libm_pow st s events = []"
  using assms
  by (induction P libm_pow st s events rule: RunFrame.induct)
     (auto simp: on_haptic_vibration_def Let_def)

text \<open>
  Claim C7. A haptic vibration event whose container handle is the left controller's
  property container yields exactly one haptic send, to the left controller's haptic
  path, carrying the shaped duration, the frequency and the shaped amplitude; a handle
  that is the right controller's (and not the left's) yields exactly one send to the right
  controller's path; events whose handle belongs to neither registered controller yield
  no haptic send at all.
\<close>

theorem haptic_routing:
  "(owns_container (left_controller s) (containerHandle ev) \<longrightarrow>
      RunFrame P libm_pow st s [VREvent_Input_HapticVibration ev] =
        [HapticsSend (LEFT_CONTROLLER_HAPTIC_ID P) (shaped_duration st (fDurationSeconds ev))
           (fFrequency ev)
           (shape_amplitude libm_pow st (clamp_duration st (fDurationSeconds ev)) (fAmplitude ev))])
   \<and> (\<not> owns_container (left_controller s) (containerHandle ev) \<and>
      owns_container (right_controller s) (containerHandle ev) \<longrightarrow>
      RunFrame P libm_pow st s [VREvent_Input_HapticVibration ev] =
        [HapticsSend (RIGHT_CONTROLLER_HAPTIC_ID P) (shaped_duration st (fDurationSeconds ev))
           (fFrequency ev)
           (shape_amplitude libm_pow st (clamp_duration st (fDurationSeconds ev)) (fAmplitude ev))])
   \<and> ((\<forall>e \<in> set events. \<forall>ev'. e = VREvent_Input_HapticVibration ev' \<longrightarrow>
          \<not> owns_container (left_controller s) (containerHandle ev') \<and>
          \<not> owns_container (right_controller s) (containerHandle ev')) \<longrightarrow>
      RunFrame P libm_pow st s events = [])"
proof (intro conjI impI)
  assume "owns_container (left_controller s) (containerHandle ev)"
  then show "RunFrame P libm_pow st s [VREvent_Input_HapticVibration ev] =
        [HapticsSend (LEFT_CONTROLLER_HAPTIC_ID P) (shaped_duration st (fDurationSeconds ev))
           (fFrequency ev)
           (shape_amplitude libm_pow st (clamp_duration st (fDurationSeconds ev)) (fAmplitude ev))]"
    by (simp add: on_haptic_vibration_def shaped_duration_def Let_def)
next
  assume "\<not> owns_container (left_controller s) (containerHandle ev) \<and>
      owns_container (right_controller s) (containerHandle ev)"
  then show "RunFrame P libm_pow st s [VREvent_Input_HapticVibration ev] =
        [HapticsSend (RIGHT_CONTROLLER_HAPTIC_ID P) (shaped_duration st (fDurationSeconds ev))
           (fFrequency ev)
           (shape_amplitude libm_pow st (clamp_duration st (fDurationSeconds ev)) (fAmplitude ev))]"
    by (simp add: on_haptic_vibration_def shaped_duration_def Let_def)
next
  assume "\<forall>e \<in> set events. \<forall>ev'. e = VREvent_Input_HapticVibration ev' \<longrightarrow>
          \<not> owns_container (left_controller s) (containerHandle ev') \<and>
          \<not> owns_container (right_controller s) (containerHandle ev')"
  then show "RunFrame P libm_pow st s events = []" by (rule RunFrame_unowned)
qed

theorem haptic_routing_witness:
  "(\<exists>d a. RunFrame paths0 (powr) settings0 provider0 [VREvent_Input_HapticVibration (pulse0 101 0)]
      = [HapticsSend 4 d 160 a])
   \<and> (\<exists>d a. RunFrame paths0 (powr) settings0 provider0 [VREvent_Input_HapticVibration (pulse0 102 0)]
      = [HapticsSend 5 d 160 a])
   \<and> RunFrame paths0 (powr) settings0 provider0
       [VREvent_Input_HapticVibration (pulse0 100 0), VREvent_Other 7] = []
   \<and> RunFrame paths0 (powr) settings0 provider_headonly
       [VREvent_Input_HapticVibration (pulse0 101 0)] = []"
proof -
  have own: "owns_container (left_controller provider0) (containerHandle (pulse0 101 0))"
    "\<not> owns_container (left_controller provider0) (containerHandle (pulse0 102 0))"
    "owns_container (right_controller provider0) (containerHandle (pulse0 102 0))"
    "\<not> owns_container (left_controller provider0) (containerHandle (pulse0 100 0))"
    "\<not> owns_container (right_controller provider0) (containerHandle (pulse0 100 0))"
    "\<not> owns_container (left_controller provider_headonly) (containerHandle (pulse0 101 0))"
    "\<not> owns_container (right_controller provider_headonly) (containerHandle (pulse0 101 0))"
    by (simp_all add: provider0_def provider_headonly_def DriverProvider_Init_def
          OvrHmd_controllers_def owns_container_def left0_def right0_def pulse0_def)
  show ?thesis
    using own
      haptic_routing [of provider0 "pulse0 101 0" paths0 "(powr)" settings0 "[]"]
      haptic_routing [of provider0 "pulse0 102 0" paths0 "(powr)" settings0
         "[VREvent_Input_HapticVibration (pulse0 100 0), VREvent_Other 7]"]
      haptic_routing [of provider_headonly "pulse0 101 0" paths0 "(powr)" settings0
         "[VREvent_Input_HapticVibration (pulse0 101 0)]"]
    by (simp add: paths0_def pulse0_def)
qed


section \<open>Bitrate parameters and unknown devices\<close>

text \<open>
  Claim C10. \<^verbatim>\<open>SetBitrateParameters\<close> writes only the members of the mode it selects.
  With adaptive bitrate enabled it sets the flag and the adaptive maximum and leaves the
  fixed bitrate as it was; with adaptive bitrate disabled it clears the flag and sets the
  fixed bitrate and leaves the adaptive maximum as it was; everything else in the provider
  keeps its value. Without a headset or without a listener the call changes nothing.
\<close>

theorem SetBitrateParameters_frame:
  "(hmd s = Some h \<and> m_Listener h = Some l \<longrightarrow>
      SetBitrateParameters bitrate_mbs True bitrate_max s =
        s\<lparr>hmd := Some (h\<lparr>m_Listener := Some (l\<lparr>m_Statistics :=
             (m_Statistics l)\<lparr>m_enableAdaptiveBitrate := True,
                               m_adaptiveBitrateMaximum := bitrate_max\<rparr>\<rparr>)\<rparr>)\<rparr>
      \<and> SetBitrateParameters bitrate_mbs False bitrate_max s =
        s\<lparr>hmd := Some (h\<lparr>m_Listener := Some (l\<lparr>m_Statistics :=
             (m_Statistics l)\<lparr>m_enableAdaptiveBitrate := False,
                               m_bitrate := bitrate_mbs\<rparr>\<rparr>)\<rparr>)\<rparr>
      \<and> (\<exists>st'. session_statistics (SetBitrateParameters bitrate_mbs True bitrate_max s) = Some st'
             \<and> m_enableAdaptiveBitrate st' \<and> m_adaptiveBitrateMaximum st' = bitrate_max
             \<and> m_bitrate st' = m_bitrate (m_Statistics l))
      \<and> (\<exists>st'. session_statistics (SetBitrateParameters bitrate_mbs False bitrate_max s) = Some st'
             \<and> \<not> m_enableAdaptiveBitrate st' \<and> m_bitrate st' = bitrate_mbs
             \<and> m_adaptiveBitrateMaximum st' = m_adaptiveBitrateMaximum (m_Statistics l)))
   \<and> (session_statistics s = None \<longrightarrow>
        SetBitrateParameters bitrate_mbs adaptive_bitrate_enabled bitrate_max s = s)"
  by (auto simp: SetBitrateParameters_def session_statistics_def Let_def split: option.splits)

theorem SetBitrateParameters_frame_witness:
  "(\<exists>st'. session_statistics (SetBitrateParameters 50 True 80 provider_streaming) = Some st'
       \<and> m_enableAdaptiveBitrate st' \<and> m_adaptiveBitrateMaximum st' = 80 \<and> m_bitrate st' = 30)
   \<and> (\<exists>st'. session_statistics (SetBitrateParameters 50 False 80 provider_streaming) = Some st'
       \<and> \<not> m_enableAdaptiveBitrate st' \<and> m_bitrate st' = 50 \<and> m_adaptiveBitrateMaximum st' = 0)
   \<and> SetBitrateParameters 50 True 80 provider0 = provider0"
proof -
  have a: "hmd provider_streaming = Some hmd_streaming \<and> m_Listener hmd_streaming = Some listener0"
    by (simp add: provider_streaming_def hmd_streaming_def)
  have b: "session_statistics provider0 = None"
    by (simp add: session_statistics_def provider0_def DriverProvider_Init_def
          OvrHmd_controllers_def hmd0_def)
  have c: "m_bitrate (m_Statistics listener0) = 30"
    "m_adaptiveBitrateMaximum (m_Statistics listener0) = 0"
    by (simp_all add: listener0_def statistics0_def)
  note T = SetBitrateParameters_frame [of provider_streaming hmd_streaming listener0 50 80 True]
  note U = SetBitrateParameters_frame [of provider0 hmd_streaming listener0 50 80 True]
  have t1: "\<exists>st'. session_statistics (SetBitrateParameters 50 True 80 provider_streaming) = Some st'
             \<and> m_enableAdaptiveBitrate st' \<and> m_adaptiveBitrateMaximum st' = 80
             \<and> m_bitrate st' = m_bitrate (m_Statistics listener0)"
    using T a by blast
  have t2: "\<exists>st'. session_statistics (SetBitrateParameters 50 False 80 provider_streaming) = Some st'
             \<and> \<not> m_enableAdaptiveBitrate st' \<and> m_bitrate st' = 50
             \<and> m_adaptiveBitrateMaximum st' = m_adaptiveBitrateMaximum (m_Statistics listener0)"
    using T a by blast
  have t3: "SetBitrateParameters 50 True 80 provider0 = provider0"
    using U b by blast
  show ?thesis using t1 t2 t3 by (simp only: c)
qed

text \<open>
  A button path of the left controller, by contrast, is followed through the controller
  pointer without a test.
\<close>

lemma SetButton_without_controller:
  assumes "path \<in> set (LEFT_CONTROLLER_BUTTON_IDS P)" and "left_controller s = None"
  shows "SetButton P path v s = Inl NullPointer"
  using assms by (simp add: SetButton_def)





section \<open>Session start, encoder failure and loss recovery\<close>

lemma StartStreaming_sets_flag:
  assumes "OvrHmd_StartStreaming plat r nl ne h = Inr (h1, cs)"
  shows "m_streamComponentsInitialized h1"
  using assms
  by (auto simp: OvrHmd_StartStreaming_def Let_def
      split: if_splits Platform.splits sum.splits)

lemma StartStreaming_started: 
  assumes "m_streamComponentsInitialized h"
  shows "OvrHmd_StartStreaming plat r nl ne h = Inr (h, [])"
  using assms by (simp add: OvrHmd_StartStreaming_def)

text \<open>
  Claim C3. Starting is idempotent: \<^verbatim>\<open>StartStreaming\<close> on a headset whose stream
  components are initialized returns the headset unchanged and makes no call, so no
  listener and no encoder is created a second time, whatever objects the constructors
  would deliver; this is the situation after any call of \<^verbatim>\<open>StartStreaming\<close> that
  returned. A second \<^verbatim>\<open>InitializeStreaming\<close> leaves the provider unchanged and only
  reloads the settings. \<^verbatim>\<open>DeinitializeStreaming\<close> changes nothing and releases
  nothing, the first time and the second.
\<close>

theorem streaming_start_stop_idempotent:
  "(m_streamComponentsInitialized h \<longrightarrow>
      OvrHmd_StartStreaming plat r nl ne h = Inr (h, []))
   \<and> (OvrHmd_StartStreaming plat r nl ne h = Inr (h1, cs) \<longrightarrow>
      OvrHmd_StartStreaming plat r' nl' ne' h1 = Inr (h1, []))
   \<and> (InitializeStreaming plat r nl ne s = Inr (s1, cs1) \<longrightarrow>
      InitializeStreaming plat r' nl' ne' s1 = Inr (s1, [Settings_Load]))
   \<and> DeinitializeStreaming s = (s, [])
   \<and> DeinitializeStreaming (fst (DeinitializeStreaming s)) = (s, [])"
proof (intro conjI impI)
  show "m_streamComponentsInitialized h \<Longrightarrow> OvrHmd_StartStreaming plat r nl ne h = Inr (h, [])"
    by (rule StartStreaming_started)
  show "OvrHmd_StartStreaming plat r nl ne h = Inr (h1, cs) \<Longrightarrow>
      OvrHmd_StartStreaming plat r' nl' ne' h1 = Inr (h1, [])"
    by (rule StartStreaming_started) (rule StartStreaming_sets_flag)
  show "DeinitializeStreaming s = (s, [])" by (simp add: DeinitializeStreaming_def)
  show "DeinitializeStreaming (fst (DeinitializeStreaming s)) = (s, [])"
    by (simp add: DeinitializeStreaming_def)
next
  assume a: "InitializeStreaming plat r nl ne s = Inr (s1, cs1)"
  show "InitializeStreaming plat r' nl' ne' s1 = Inr (s1, [Settings_Load])"
  proof (cases "hmd s")
    case None
    with a have "s1 = s" by (simp add: InitializeStreaming_def)
    with None show ?thesis by (simp add: InitializeStreaming_def)
  next
    case (Some h0)
    with a obtain h' cs' where st: "OvrHmd_StartStreaming plat r nl ne h0 = Inr (h', cs')"
      and s1: "s1 = s\<lparr>hmd := Some h'\<rparr>"
      by (auto simp: InitializeStreaming_def split: sum.splits)
    have "OvrHmd_StartStreaming plat r' nl' ne' h' = Inr (h', [])"
      using st by (intro StartStreaming_started StartStreaming_sets_flag)
    then show ?thesis using s1 by (simp add: InitializeStreaming_def)
  qed
qed

theorem streaming_start_stop_idempotent_witness:
  "InitializeStreaming Linux None listener0 encoder0 provider0 =
     Inr (provider_streaming, [Settings_Load, New_ClientConnection, New_CEncoder, CEncoder_Start])
   \<and> InitializeStreaming Linux None \<lparr>m_Statistics = statistics0\<lparr>m_bitrate := 9\<rparr>\<rparr>
        \<lparr>IsConnected = False\<rparr> provider_streaming = Inr (provider_streaming, [Settings_Load])
   \<and> OvrHmd_StartStreaming Linux None listener0 encoder0 hmd_streaming = Inr (hmd_streaming, [])
   \<and> DeinitializeStreaming (fst (DeinitializeStreaming provider_streaming)) = (provider_streaming, [])"
proof -
  have a: "InitializeStreaming Linux None listener0 encoder0 provider0 =
     Inr (provider_streaming, [Settings_Load, New_ClientConnection, New_CEncoder, CEncoder_Start])"
    by (simp add: InitializeStreaming_def OvrHmd_StartStreaming_def provider0_def
          provider_streaming_def hmd_streaming_def DriverProvider_Init_def OvrHmd_controllers_def
          hmd0_def Let_def)
  have b: "m_streamComponentsInitialized hmd_streaming" by (simp add: hmd_streaming_def)
  note T = streaming_start_stop_idempotent [of hmd_streaming Linux None listener0 encoder0
      hmd_streaming "[]" None "\<lparr>m_Statistics = statistics0\<lparr>m_bitrate := 9\<rparr>\<rparr>" "\<lparr>IsConnected = False\<rparr>"
      provider0 provider_streaming
      "[Settings_Load, New_ClientConnection, New_CEncoder, CEncoder_Start]"]
  have c: "InitializeStreaming Linux None \<lparr>m_Statistics = statistics0\<lparr>m_bitrate := 9\<rparr>\<rparr>
        \<lparr>IsConnected = False\<rparr> provider_streaming = Inr (provider_streaming, [Settings_Load])"
    using T a by blast
  have d: "OvrHmd_StartStreaming Linux None listener0 encoder0 hmd_streaming = Inr (hmd_streaming, [])"
    using T b by blast
  have e: "DeinitializeStreaming (fst (DeinitializeStreaming provider_streaming)) = (provider_streaming, [])"
    by (simp add: DeinitializeStreaming_def)
  show ?thesis using a c d e by blast
qed

text \<open>
  Claim C4 says that a failed encoder initialization keeps streaming from starting and
  unwinds to the caller of the session start. On the Windows path the handler absorbs the
  exception: \<^verbatim>\<open>InitializeStreaming\<close> returns normally, the encoder thread is started
  and the stream components are marked initialized.
\<close>

theorem encoder_failure_absorbed_counterexample:
  "InitializeStreaming Win32 (Some (AlvrException ''NVENC unavailable'')) listener0 encoder0 provider0 =
     Inr (provider_streaming,
          [Settings_Load, New_ClientConnection, New_CEncoder, CEncoder_Initialize,
           LogError (encoder_error_message ''NVENC unavailable''),
           CEncoder_Start, DirectModeComponent_SetEncoder, CEncoder_OnStreamStart])
   \<and> m_streamComponentsInitialized hmd_streaming
   \<and> hmd provider_streaming = Some hmd_streaming"
  by (simp add: InitializeStreaming_def OvrHmd_StartStreaming_def provider0_def
        provider_streaming_def hmd_streaming_def DriverProvider_Init_def OvrHmd_controllers_def
        hmd0_def Let_def encoder_initialize_caught_def)

text \<open>
  Claim C4, amended. When \<^verbatim>\<open>CEncoder::Initialize\<close> throws the driver's
  \<^verbatim>\<open>Exception\<close> on the Windows path, \<^verbatim>\<open>StartStreaming\<close> never lets it unwind to
  its caller; on a headset that is starting its stream the failure is reported through
  \<^verbatim>\<open>Error\<close> with a message that contains the exception's cause. On Linux the
  constructor of \<^verbatim>\<open>VkContext\<close> throws \<^verbatim>\<open>AvException\<close> with the text
  ``failed to initialize ffmpeg'' and the error code when the device context fails to
  initialize.
\<close>

theorem encoder_failure_reported:
  "OvrHmd_StartStreaming Win32 (Some (AlvrException cause)) new_listener new_encoder h
     \<noteq> Inl (Uncaught e)
   \<and> (\<not> m_streamComponentsInitialized h \<and> IsHMD h \<and> m_directModeComponent h \<longrightarrow>
        (\<exists>h' cs. OvrHmd_StartStreaming Win32 (Some (AlvrException cause)) new_listener new_encoder h
                    = Inr (h', cs)
                \<and> LogError (encoder_error_message cause) \<in> set cs))
   \<and> (\<exists>before after. encoder_error_message cause = before @ cause @ after)
   \<and> (find (\<lambda>props. deviceName = None \<or> deviceName = Some (props_deviceName props)) physicalDevices
         = Some props \<and> ret \<noteq> 0 \<longrightarrow>
        VkContext_ctor deviceName physicalDevices m_force_sw_encoding ret =
          Inl (Uncaught (AvException ''failed to initialize ffmpeg'' ret)))"
proof (intro conjI impI)
  show "OvrHmd_StartStreaming Win32 (Some (AlvrException cause)) new_listener new_encoder h
     \<noteq> Inl (Uncaught e)"
    by (simp add: OvrHmd_StartStreaming_def Let_def encoder_initialize_caught_def)
  show "\<exists>before after. encoder_error_message cause = before @ cause @ after"
    unfolding encoder_error_message_def by (metis append.assoc)
next
  assume "\<not> m_streamComponentsInitialized h \<and> IsHMD h \<and> m_directModeComponent h"
  then show "\<exists>h' cs. OvrHmd_StartStreaming Win32 (Some (AlvrException cause)) new_listener new_encoder h
                    = Inr (h', cs)
                \<and> LogError (encoder_error_message cause) \<in> set cs"
    by (simp add: OvrHmd_StartStreaming_def Let_def encoder_initialize_caught_def)
next
  assume "find (\<lambda>props. deviceName = None \<or> deviceName = Some (props_deviceName props)) physicalDevices
         = Some props \<and> ret \<noteq> 0"
  then show "VkContext_ctor deviceName physicalDevices m_force_sw_encoding ret =
          Inl (Uncaught (AvException ''failed to initialize ffmpeg'' ret))"
    by (simp add: VkContext_ctor_def Let_def)
qed

theorem encoder_failure_reported_witness:
  "(\<exists>h' cs. OvrHmd_StartStreaming Win32 (Some (AlvrException ''NVENC unavailable'')) listener0 encoder0 hmd0
                    = Inr (h', cs)
                \<and> LogError (encoder_error_message ''NVENC unavailable'') \<in> set cs)
   \<and> VkContext_ctor None [\<lparr>props_deviceName = ''gpu'', props_vendorID = 0x1002\<rparr>] False (- 12) =
          Inl (Uncaught (AvException ''failed to initialize ffmpeg'' (- 12)))"
proof -
  have a: "\<not> m_streamComponentsInitialized hmd0 \<and> IsHMD hmd0 \<and> m_directModeComponent hmd0"
    by (simp add: hmd0_def)
  have b: "find (\<lambda>props. (None :: string option) = None \<or> None = Some (props_deviceName props))
             [\<lparr>props_deviceName = ''gpu'', props_vendorID = 0x1002\<rparr>]
           = Some \<lparr>props_deviceName = ''gpu'', props_vendorID = 0x1002\<rparr> \<and> (- 12 :: int) \<noteq> 0"
    by simp
  note T = encoder_failure_reported [of "''NVENC unavailable''" listener0 encoder0 hmd0 undefined
      None "[\<lparr>props_deviceName = ''gpu'', props_vendorID = 0x1002\<rparr>]"
      "\<lparr>props_deviceName = ''gpu'', props_vendorID = 0x1002\<rparr>" "- 12" False]
  show ?thesis using T a b by blast
qed

lemma EncodePipeline_calls_keeps_recovery:
  assumes "keyframeRecovery e"
  shows "keyframeRecovery (EncodePipeline_calls cs e)"
  using assms
  by (induction cs e rule: EncodePipeline_calls.induct) (simp_all add: onPacketLoss_def)

lemma EncodePipeline_calls_loss:
  assumes "CEncoder_OnPacketLoss \<in> set cs"
  shows "keyframeRecovery (EncodePipeline_calls cs e)"
  using assms
  by (induction cs e rule: EncodePipeline_calls.induct)
     (auto simp: onPacketLoss_def EncodePipeline_calls_keeps_recovery)

lemma recovery_marks_next_frame:
  assumes "keyframeRecovery e"
  shows "isKeyframeRequested (fst (onFrameIntervalElapsed cadence timestampNs pose e))"
  using assms by (simp add: onFrameIntervalElapsed_def)

text \<open>
  Claim C2. When a video-error report arrives while a headset with a listener and an
  encoder is streaming, \<^verbatim>\<open>VideoErrorReportReceive\<close> returns normally and forwards
  the loss to the encoder (\<^verbatim>\<open>OnPacketLoss\<close>); the pipeline that has received these
  calls, and any later calls short of a frame tick, marks its very next frame job as a
  keyframe request, whatever the normal cadence asks for.
\<close>

theorem fec_failure_forces_keyframe:
  "hmd s = Some h \<and> m_Listener h = Some l \<and> m_encoder h = Some e \<longrightarrow>
     (\<exists>cs. VideoErrorReportReceive s = Inr (s, cs)
        \<and> CEncoder_OnPacketLoss \<in> set cs
        \<and> isKeyframeRequested
            (fst (onFrameIntervalElapsed cadence timestampNs pose
                    (EncodePipeline_calls (cs @ later) pipeline))))"
proof
  assume a: "hmd s = Some h \<and> m_Listener h = Some l \<and> m_encoder h = Some e"
  let ?cs = "[ClientConnection_OnFecFailure, CEncoder_OnPacketLoss]"
  have r: "VideoErrorReportReceive s = Inr (s, ?cs)"
    using a by (simp add: VideoErrorReportReceive_def)
  have "CEncoder_OnPacketLoss \<in> set (?cs @ later)" by simp
  then have "keyframeRecovery (EncodePipeline_calls (?cs @ later) pipeline)"
    by (rule EncodePipeline_calls_loss)
  then have "isKeyframeRequested
            (fst (onFrameIntervalElapsed cadence timestampNs pose
                    (EncodePipeline_calls (?cs @ later) pipeline)))"
    by (rule recovery_marks_next_frame)
  with r show "\<exists>cs. VideoErrorReportReceive s = Inr (s, cs)
        \<and> CEncoder_OnPacketLoss \<in> set cs
        \<and> isKeyframeRequested
            (fst (onFrameIntervalElapsed cadence timestampNs pose
                    (EncodePipeline_calls (cs @ later) pipeline)))"
    by simp
qed

theorem fec_failure_forces_keyframe_witness:
  "VideoErrorReportReceive provider_streaming =
     Inr (provider_streaming, [ClientConnection_OnFecFailure, CEncoder_OnPacketLoss])
   \<and> isKeyframeRequested
        (fst (onFrameIntervalElapsed False 1000 (motion0 1)
           (EncodePipeline_calls [ClientConnection_OnFecFailure, CEncoder_OnPacketLoss]
              \<lparr>frameCounter = 7, keyframeRecovery = False\<rparr>)))
   \<and> \<not> isKeyframeRequested
        (fst (onFrameIntervalElapsed False 1000 (motion0 1)
           \<lparr>frameCounter = 7, keyframeRecovery = False\<rparr>))"
proof -
  have a: "hmd provider_streaming = Some hmd_streaming \<and> m_Listener hmd_streaming = Some listener0
      \<and> m_encoder hmd_streaming = Some encoder0"
    by (simp add: provider_streaming_def hmd_streaming_def)
  have b: "VideoErrorReportReceive provider_streaming =
     Inr (provider_streaming, [ClientConnection_OnFecFailure, CEncoder_OnPacketLoss])"
    using a by (simp add: VideoErrorReportReceive_def)
  have c: "\<not> isKeyframeRequested
        (fst (onFrameIntervalElapsed False 1000 (motion0 1)
           \<lparr>frameCounter = 7, keyframeRecovery = False\<rparr>))"
    by (simp add: onFrameIntervalElapsed_def)
  note T = fec_failure_forces_keyframe [of provider_streaming hmd_streaming listener0 encoder0
      False 1000 "motion0 1" "[]" "\<lparr>frameCounter = 7, keyframeRecovery = False\<rparr>"]
  show ?thesis using T a b c by auto
qed


section \<open>Routing of tracking data\<close>

lemma OnPoseUpdated_active:
  assumes "object_id h \<noteq> k_unTrackedDeviceIndexInvalid"
    and "OvrHmd_OnPoseUpdated plat st ts motion h = (h', cs)"
  shows "object_id h' = object_id h"
    and "filter is_pose_history_call cs = [PoseHistory_OnPoseUpdated ts motion]"
    and "filter (is_controller_pose_call hand) cs = []"
  using assms by (auto simp: OvrHmd_OnPoseUpdated_def Let_def)

lemma SetTracking_motion_ready:
  assumes "devices_ready s" and "distinct_device_ids P"
    and "SetTracking_motion P plat st ts offs lh rh motion s = (s', cs)"
  shows "devices_ready s'
    \<and> filter is_pose_history_call cs =
           (if deviceID motion = HEAD_ID P then [PoseHistory_OnPoseUpdated ts motion] else [])
    \<and> filter (is_controller_pose_call LeftHand) cs =
           (if deviceID motion = LEFT_HAND_ID P then [Controller_onPoseUpdate LeftHand offs motion lh] else [])
    \<and> filter (is_controller_pose_call RightHand) cs =
           (if deviceID motion = RIGHT_HAND_ID P then [Controller_onPoseUpdate RightHand offs motion rh] else [])"
proof -
  obtain h where h: "hmd s = Some h" "object_id h \<noteq> k_unTrackedDeviceIndexInvalid"
    and l: "left_controller s \<noteq> None" and r: "right_controller s \<noteq> None"
    using assms(1) by (auto simp: devices_ready_def split: option.splits)
  have ids: "HEAD_ID P \<noteq> LEFT_HAND_ID P" "HEAD_ID P \<noteq> RIGHT_HAND_ID P" "LEFT_HAND_ID P \<noteq> RIGHT_HAND_ID P"
    using assms(2) by (auto simp: distinct_device_ids_def)
  show ?thesis
  proof (cases "deviceID motion = HEAD_ID P")
    case True
    obtain h' cs' where o: "OvrHmd_OnPoseUpdated plat st ts motion h = (h', cs')"
      by (cases "OvrHmd_OnPoseUpdated plat st ts motion h")
    from True h o assms(3) have s': "s' = s\<lparr>hmd := Some h'\<rparr>" and cs: "cs = cs'"
      by (auto simp: SetTracking_motion_def)
    note A = OnPoseUpdated_active [OF h(2) o]
    show ?thesis
      using True ids l r h A by (simp add: s' cs devices_ready_def)
  next
    case False
    with assms(3) l r have "s' = s"
      and "cs = (if deviceID motion = LEFT_HAND_ID P then [Controller_onPoseUpdate LeftHand offs motion lh]
                 else if deviceID motion = RIGHT_HAND_ID P then [Controller_onPoseUpdate RightHand offs motion rh]
                 else [])"
      by (auto simp: SetTracking_motion_def split: if_splits)
    then show ?thesis
      using False ids assms(1) by simp
  qed
qed

lemma SetTracking_motion_unknown:
  assumes "\<not> known_device P motion"
  shows "SetTracking_motion P plat st ts offs lh rh motion s = (s, [])"
  using assms by (simp add: SetTracking_motion_def known_device_def)

lemma SetTracking_drops_unknown:
  "SetTracking P plat st ts offs motions lh rh s =
   SetTracking P plat st ts offs (filter (known_device P) motions) lh rh s"
  by (induction motions arbitrary: s) (simp_all add: SetTracking_motion_unknown)

lemma SetTracking_routes:
  assumes "devices_ready s" and "distinct_device_ids P"
  shows "devices_ready (fst (SetTracking P plat st ts offs motions lh rh s))
   \<and> filter is_pose_history_call (snd (SetTracking P plat st ts offs motions lh rh s)) =
       map (PoseHistory_OnPoseUpdated ts) (filter (\<lambda>m. deviceID m = HEAD_ID P) motions)
   \<and> filter (is_controller_pose_call LeftHand) (snd (SetTracking P plat st ts offs motions lh rh s)) =
       map (\<lambda>m. Controller_onPoseUpdate LeftHand offs m lh) (filter (\<lambda>m. deviceID m = LEFT_HAND_ID P) motions)
   \<and> filter (is_controller_pose_call RightHand) (snd (SetTracking P plat st ts offs motions lh rh s)) =
       map (\<lambda>m. Controller_onPoseUpdate RightHand offs m rh) (filter (\<lambda>m. deviceID m = RIGHT_HAND_ID P) motions)"
  using assms(1)
proof (induction motions arbitrary: s)
  case Nil
  then show ?case by simp
next
  case (Cons motion motions)
  obtain s1 cs1 where m: "SetTracking_motion P plat st ts offs lh rh motion s = (s1, cs1)"
    by (cases "SetTracking_motion P plat st ts offs lh rh motion s")
  obtain s2 cs2 where r: "SetTracking P plat st ts offs motions lh rh s1 = (s2, cs2)"
    by (cases "SetTracking P plat st ts offs motions lh rh s1")
  note A = SetTracking_motion_ready [OF Cons.prems assms(2) m]
  have A1: "devices_ready s1" using A by blast
  note B = Cons.IH [OF A1, unfolded r fst_conv snd_conv]
  show ?case using A B by (simp add: m r)
qed

text \<open>
  Claim C6. For every batch of device motions handed to \<^verbatim>\<open>SetTracking\<close>, with the
  headset registered and activated, both controllers present and the three device
  identifiers distinct: the calls into the pose history are exactly the head motions of the
  batch, in order, with the batch's target timestamp; the calls into the left and the
  right controller's pose sink are exactly the left-hand and the right-hand motions, so no
  hand motion enters the pose history; and motions of any other identifier are ignored:
  removing them from the batch changes neither the resulting state nor the calls, and a
  batch of such motions alone does nothing.
\<close>

theorem tracking_routed_by_device:
  "(devices_ready s \<and> distinct_device_ids P \<longrightarrow>
      filter is_pose_history_call (snd (SetTracking P plat st ts offs motions lh rh s)) =
        map (PoseHistory_OnPoseUpdated ts) (filter (\<lambda>m. deviceID m = HEAD_ID P) motions)
      \<and> filter (is_controller_pose_call LeftHand) (snd (SetTracking P plat st ts offs motions lh rh s)) =
        map (\<lambda>m. Controller_onPoseUpdate LeftHand offs m lh)
          (filter (\<lambda>m. deviceID m = LEFT_HAND_ID P) motions)
      \<and> filter (is_controller_pose_call RightHand) (snd (SetTracking P plat st ts offs motions lh rh s)) =
        map (\<lambda>m. Controller_onPoseUpdate RightHand offs m rh)
          (filter (\<lambda>m. deviceID m = RIGHT_HAND_ID P) motions))
   \<and> SetTracking P plat st ts offs motions lh rh s =
       SetTracking P plat st ts offs (filter (known_device P) motions) lh rh s
   \<and> ((\<forall>m \<in> set motions. \<not> known_device P m) \<longrightarrow>
        SetTracking P plat st ts offs motions lh rh s = (s, []))"
proof (intro conjI impI)
  assume a: "devices_ready s \<and> distinct_device_ids P"
  then have a1: "devices_ready s" and a2: "distinct_device_ids P" by simp_all
  note R = SetTracking_routes [OF a1 a2, of plat st ts offs motions lh rh]
  show "filter is_pose_history_call (snd (SetTracking P plat st ts offs motions lh rh s)) =
        map (PoseHistory_OnPoseUpdated ts) (filter (\<lambda>m. deviceID m = HEAD_ID P) motions)"
    using R by blast
  show "filter (is_controller_pose_call LeftHand) (snd (SetTracking P plat st ts offs motions lh rh s)) =
        map (\<lambda>m. Controller_onPoseUpdate LeftHand offs m lh)
          (filter (\<lambda>m. deviceID m = LEFT_HAND_ID P) motions)"
    using R by blast
  show "filter (is_controller_pose_call RightHand) (snd (SetTracking P plat st ts offs motions lh rh s)) =
        map (\<lambda>m. Controller_onPoseUpdate RightHand offs m rh)
          (filter (\<lambda>m. deviceID m = RIGHT_HAND_ID P) motions)"
    using R by blast
next
  show "SetTracking P plat st ts offs motions lh rh s =
       SetTracking P plat st ts offs (filter (known_device P) motions) lh rh s"
    by (rule SetTracking_drops_unknown)
next
  assume "\<forall>m \<in> set motions. \<not> known_device P m"
  then have "filter (known_device P) motions = []" by (simp add: filter_empty_conv)
  then show "SetTracking P plat st ts offs motions lh rh s = (s, [])"
    using SetTracking_drops_unknown [of P plat st ts offs motions lh rh s] by simp
qed

theorem tracking_routed_by_device_witness:
  "devices_ready provider0 \<and> distinct_device_ids paths0
   \<and> filter is_pose_history_call
       (snd (SetTracking paths0 Linux settings0 1000 0 [motion0 2, motion0 1, motion0 9, motion0 3]
               undefined undefined provider0))
     = [PoseHistory_OnPoseUpdated 1000 (motion0 1)]
   \<and> filter (is_controller_pose_call LeftHand)
       (snd (SetTracking paths0 Linux settings0 1000 0 [motion0 2, motion0 1, motion0 9, motion0 3]
               undefined undefined provider0))
     = [Controller_onPoseUpdate LeftHand 0 (motion0 2) undefined]
   \<and> SetTracking paths0 Linux settings0 1000 0 [motion0 9, motion0 8] undefined undefined provider0
     = (provider0, [])"
proof -
  have a: "devices_ready provider0 \<and> distinct_device_ids paths0"
    by (simp add: devices_ready_def provider0_def DriverProvider_Init_def OvrHmd_controllers_def
          hmd0_def k_unTrackedDeviceIndexInvalid_def distinct_device_ids_def paths0_def)
  have b: "\<forall>m \<in> set [motion0 9, motion0 8]. \<not> known_device paths0 m"
    by (simp add: known_device_def motion0_def paths0_def)
  have c: "filter (\<lambda>m. deviceID m = HEAD_ID paths0) [motion0 2, motion0 1, motion0 9, motion0 3] = [motion0 1]"
    "filter (\<lambda>m. deviceID m = LEFT_HAND_ID paths0) [motion0 2, motion0 1, motion0 9, motion0 3] = [motion0 2]"
    by (simp_all add: motion0_def paths0_def)
  note T1 = tracking_routed_by_device [of provider0 paths0 Linux settings0 1000 0
      "[motion0 2, motion0 1, motion0 9, motion0 3]" undefined undefined]
  note T2 = tracking_routed_by_device [of provider0 paths0 Linux settings0 1000 0
      "[motion0 9, motion0 8]" undefined undefined]
  have t1: "filter is_pose_history_call
       (snd (SetTracking paths0 Linux settings0 1000 0 [motion0 2, motion0 1, motion0 9, motion0 3]
               undefined undefined provider0))
     = map (PoseHistory_OnPoseUpdated 1000)
        (filter (\<lambda>m. deviceID m = HEAD_ID paths0) [motion0 2, motion0 1, motion0 9, motion0 3])"
    using T1 a by blast
  have t2: "filter (is_controller_pose_call LeftHand)
       (snd (SetTracking paths0 Linux settings0 1000 0 [motion0 2, motion0 1, motion0 9, motion0 3]
               undefined undefined provider0))
     = map (\<lambda>m. Controller_onPoseUpdate LeftHand 0 m undefined)
        (filter (\<lambda>m. deviceID m = LEFT_HAND_ID paths0) [motion0 2, motion0 1, motion0 9, motion0 3])"
    using T1 a by blast
  have t3: "SetTracking paths0 Linux settings0 1000 0 [motion0 9, motion0 8] undefined undefined provider0
     = (provider0, [])"
    using T2 b by blast
  show ?thesis using a t1 t2 t3 unfolding c by simp
qed


section \<open>Pose history\<close>

lemma strictly_sorted_le_last:
  fixes xs :: "'a::linorder list"
  assumes "sorted_wrt (<) xs" and "y \<in> set xs"
  shows "y \<le> last xs"
  using assms by (induction xs) (auto simp: less_imp_le)

lemma latest_timestamp_nonempty:
  assumes "samples ph \<noteq> []"
  shows "latest_timestamp ph = Some (sample_timestampNs (last (samples ph)))"
  using assms by (cases "samples ph") (simp_all add: latest_timestamp_def)

lemma latest_timestamp_empty:
  assumes "samples ph = []"
  shows "latest_timestamp ph = None"
  using assms by (simp add: latest_timestamp_def)

lemma PoseHistory_push_samples:
  "samples (PoseHistory_push t p ph) =
     drop (Suc (length (samples ph)) - capacity ph)
       (samples ph @ [\<lparr>sample_timestampNs = t, sample_motion = p\<rparr>])"
  by (simp add: PoseHistory_push_def Let_def del: drop_append)

lemma PoseHistory_push_sorted:
  assumes "sorted_wrt (<) (map sample_timestampNs (samples ph))"
    and "samples ph \<noteq> [] \<Longrightarrow> sample_timestampNs (last (samples ph)) < t"
  shows "sorted_wrt (<) (map sample_timestampNs (samples (PoseHistory_push t p ph)))"
proof -
  let ?ts = "map sample_timestampNs (samples ph)"
  let ?k = "Suc (length (samples ph)) - capacity ph"
  have "\<forall>y \<in> set ?ts. y < t"
  proof
    fix y assume y: "y \<in> set ?ts"
    then have ne: "samples ph \<noteq> []" by auto
    have "y \<le> last ?ts" using assms(1) y by (rule strictly_sorted_le_last)
    also have "last ?ts = sample_timestampNs (last (samples ph))" using ne by (simp add: last_map)
    also have "\<dots> < t" using assms(2) ne by simp
    finally show "y < t" .
  qed
  then have "sorted_wrt (<) (?ts @ [t])"
    using assms(1) by (simp add: sorted_wrt_append)
  then have "sorted_wrt (<) (drop ?k (?ts @ [t]))"
    by (rule sorted_wrt_drop)
  moreover have "map sample_timestampNs (samples (PoseHistory_push t p ph)) = drop ?k (?ts @ [t])"
  proof -
    have "?ts @ [t] = map sample_timestampNs
            (samples ph @ [\<lparr>sample_timestampNs = t, sample_motion = p\<rparr>])" by simp
    then show ?thesis by (simp only: PoseHistory_push_samples drop_map)
  qed
  ultimately show ?thesis by simp
qed

lemma PoseHistory_record_sorted:
  assumes "sorted_wrt (<) (map sample_timestampNs (samples ph))"
  shows "sorted_wrt (<) (map sample_timestampNs (samples (PoseHistory_record t p ph)))"
proof (cases "samples ph = []")
  case True
  then have "PoseHistory_record t p ph = PoseHistory_push t p ph"
    by (simp add: PoseHistory_record_def latest_timestamp_empty)
  moreover have "sorted_wrt (<) (map sample_timestampNs (samples (PoseHistory_push t p ph)))"
    using assms by (rule PoseHistory_push_sorted) (simp add: True)
  ultimately show ?thesis by simp
next
  case False
  then have l: "latest_timestamp ph = Some (sample_timestampNs (last (samples ph)))"
    by (rule latest_timestamp_nonempty)
  show ?thesis
  proof (cases "t \<le> sample_timestampNs (last (samples ph))")
    case True
    then show ?thesis using assms l by (simp add: PoseHistory_record_def)
  next
    case nle: False
    then have "PoseHistory_record t p ph = PoseHistory_push t p ph"
      using l by (simp add: PoseHistory_record_def)
    moreover have "sorted_wrt (<) (map sample_timestampNs (samples (PoseHistory_push t p ph)))"
      using assms by (rule PoseHistory_push_sorted) (use nle in simp)
    ultimately show ?thesis by simp
  qed
qed

lemma PoseHistory_records_sorted:
  assumes "sorted_wrt (<) (map sample_timestampNs (samples ph))"
  shows "sorted_wrt (<) (map sample_timestampNs (samples (PoseHistory_records calls ph)))"
  using assms
  by (induction calls ph rule: PoseHistory_records.induct) (simp_all add: PoseHistory_record_sorted)

lemma PoseHistory_push_latest:
  assumes "0 < capacity ph"
  shows "latest_timestamp (PoseHistory_push t p ph) = Some t"
proof -
  let ?g = "samples ph @ [\<lparr>sample_timestampNs = t, sample_motion = p\<rparr>]"
  let ?k = "Suc (length (samples ph)) - capacity ph"
  have k: "?k < length ?g" using assms by simp
  have s: "samples (PoseHistory_push t p ph) = drop ?k ?g" by (rule PoseHistory_push_samples)
  have ne: "samples (PoseHistory_push t p ph) \<noteq> []" using k unfolding s by simp
  have "last (samples (PoseHistory_push t p ph)) = last ?g"
    unfolding s using k by (rule last_drop)
  then have "sample_timestampNs (last (samples (PoseHistory_push t p ph))) = t" by simp
  then show ?thesis using latest_timestamp_nonempty [OF ne] by simp
qed

text \<open>
  Claim C9. For every sequence of \<^verbatim>\<open>record\<close> calls, from the empty history or from
  any history with strictly increasing timestamps, the retained samples have strictly
  increasing timestamps. A call whose timestamp is not strictly greater than the latest
  accepted one returns the history exactly as it was (and \<^verbatim>\<open>record\<close> is a total
  function: it raises nothing). A call with a strictly greater timestamp, or into an
  empty history, is accepted and becomes the latest sample.
\<close>

theorem pose_history_monotonic:
  "sorted_wrt (<) (map sample_timestampNs (samples (PoseHistory_records calls (PoseHistory_new n))))
   \<and> (sorted_wrt (<) (map sample_timestampNs (samples ph)) \<longrightarrow>
        sorted_wrt (<) (map sample_timestampNs (samples (PoseHistory_records calls ph))))
   \<and> (latest_timestamp ph = Some latest \<and> timestampNs \<le> latest \<longrightarrow>
        PoseHistory_record timestampNs pose ph = ph)
   \<and> (0 < capacity ph \<and>
       (latest_timestamp ph = None \<or> (\<exists>latest. latest_timestamp ph = Some latest \<and> latest < timestampNs)) \<longrightarrow>
        latest_timestamp (PoseHistory_record timestampNs pose ph) = Some timestampNs)"
proof (intro conjI impI)
  show "sorted_wrt (<) (map sample_timestampNs (samples (PoseHistory_records calls (PoseHistory_new n))))"
    by (rule PoseHistory_records_sorted) (simp add: PoseHistory_new_def)
  show "sorted_wrt (<) (map sample_timestampNs (samples ph)) \<Longrightarrow>
        sorted_wrt (<) (map sample_timestampNs (samples (PoseHistory_records calls ph)))"
    by (rule PoseHistory_records_sorted)
  show "latest_timestamp ph = Some latest \<and> timestampNs \<le> latest \<Longrightarrow>
        PoseHistory_record timestampNs pose ph = ph"
    by (simp add: PoseHistory_record_def)
next
  assume a: "0 < capacity ph \<and>
       (latest_timestamp ph = None \<or> (\<exists>latest. latest_timestamp ph = Some latest \<and> latest < timestampNs))"
  then have "PoseHistory_record timestampNs pose ph = PoseHistory_push timestampNs pose ph"
    by (auto simp: PoseHistory_record_def)
  then show "latest_timestamp (PoseHistory_record timestampNs pose ph) = Some timestampNs"
    using a by (simp add: PoseHistory_push_latest)
qed

theorem pose_history_monotonic_witness:
  "map sample_timestampNs
     (samples (PoseHistory_records [(10, motion0 1), (30, motion0 1), (20, motion0 1), (30, motion0 1), (40, motion0 1)]
        (PoseHistory_new 3))) = [10, 30, 40]
   \<and> PoseHistory_record 20 (motion0 1) (PoseHistory_records [(10, motion0 1), (30, motion0 1)] (PoseHistory_new 3))
       = PoseHistory_records [(10, motion0 1), (30, motion0 1)] (PoseHistory_new 3)
   \<and> latest_timestamp (PoseHistory_record 40 (motion0 1)
        (PoseHistory_records [(10, motion0 1), (30, motion0 1)] (PoseHistory_new 3))) = Some 40"
proof -
  let ?ph = "PoseHistory_records [(10, motion0 1), (30, motion0 1)] (PoseHistory_new 3)"
  have ph: "?ph = \<lparr>capacity = 3, samples = [\<lparr>sample_timestampNs = 10, sample_motion = motion0 1\<rparr>,
                     \<lparr>sample_timestampNs = 30, sample_motion = motion0 1\<rparr>]\<rparr>"
    by (simp add: PoseHistory_new_def PoseHistory_record_def PoseHistory_push_def
          latest_timestamp_def Let_def)
  have l: "latest_timestamp ?ph = Some 30 \<and> (20 :: u64) \<le> 30"
    unfolding ph by (simp add: latest_timestamp_def)
  have c: "0 < capacity ?ph \<and> (latest_timestamp ?ph = None \<or>
             (\<exists>latest. latest_timestamp ?ph = Some latest \<and> latest < 40))"
    unfolding ph by (simp add: latest_timestamp_def)
  have a: "map sample_timestampNs
     (samples (PoseHistory_records [(10, motion0 1), (30, motion0 1), (20, motion0 1), (30, motion0 1), (40, motion0 1)]
        (PoseHistory_new 3))) = [10, 30, 40]"
    by (simp add: PoseHistory_new_def PoseHistory_record_def PoseHistory_push_def
          latest_timestamp_def Let_def)
  note T = pose_history_monotonic [of "[]" 3 ?ph 30 20 "motion0 1"]
  note U = pose_history_monotonic [of "[]" 3 ?ph 30 40 "motion0 1"]
  have t: "PoseHistory_record 20 (motion0 1) ?ph = ?ph" using T l by blast
  have u: "latest_timestamp (PoseHistory_record 40 (motion0 1) ?ph) = Some 40" using U c by blast
  show ?thesis using a t u by blast
qed


section \<open>Adaptive bitrate\<close>

lemma clamp_bitrate_range:
  assumes "lo \<le> hi"
  shows "lo \<le> clamp_bitrate lo hi b \<and> clamp_bitrate lo hi b \<le> hi"
  using assms by (simp add: clamp_bitrate_def)

lemma BitrateController_feedback_adaptive:
  assumes "m_enableAdaptiveBitrate (stats c)"
    and "minimumBitrate par \<le> unat (m_adaptiveBitrateMaximum (stats c))"
  shows "m_enableAdaptiveBitrate (stats (BitrateController_feedback par fb c))
    \<and> m_adaptiveBitrateMaximum (stats (BitrateController_feedback par fb c)) =
        m_adaptiveBitrateMaximum (stats c)
    \<and> minimumBitrate par \<le> unat (m_bitrate (stats (BitrateController_feedback par fb c)))
    \<and> unat (m_bitrate (stats (BitrateController_feedback par fb c))) \<le>
        unat (m_adaptiveBitrateMaximum (stats c))"
proof -
  let ?mx = "m_adaptiveBitrateMaximum (stats c)"
  have r: "\<And>b. minimumBitrate par \<le> clamp_bitrate (minimumBitrate par) (unat ?mx) b
            \<and> clamp_bitrate (minimumBitrate par) (unat ?mx) b \<le> unat ?mx"
    using assms(2) by (rule clamp_bitrate_range)
  have u: "\<And>b. unat (word_of_nat (clamp_bitrate (minimumBitrate par) (unat ?mx) b) :: u64) =
            clamp_bitrate (minimumBitrate par) (unat ?mx) b"
    using r by (intro le_unat_uoi [of _ ?mx]) blast
  show ?thesis
    using assms(1) r by (simp add: BitrateController_feedback_def Let_def u)
qed

lemma BitrateController_run_adaptive:
  assumes "m_enableAdaptiveBitrate (stats c)"
    and "minimumBitrate par \<le> unat (m_adaptiveBitrateMaximum (stats c))"
    and "fbs \<noteq> []"
  shows "m_adaptiveBitrateMaximum (stats (BitrateController_run par fbs c)) =
        m_adaptiveBitrateMaximum (stats c)
    \<and> minimumBitrate par \<le> unat (m_bitrate (stats (BitrateController_run par fbs c)))
    \<and> unat (m_bitrate (stats (BitrateController_run par fbs c))) \<le>
        unat (m_adaptiveBitrateMaximum (stats c))"
  using assms
proof (induction fbs arbitrary: c)
  case Nil
  then show ?case by simp
next
  case (Cons fb fbs)
  note F = BitrateController_feedback_adaptive [OF Cons.prems(1,2), of fb]
  show ?case
  proof (cases "fbs = []")
    case True
    then show ?thesis using F by simp
  next
    case False
    have "m_enableAdaptiveBitrate (stats (BitrateController_feedback par fb c))" using F by blast
    moreover have "minimumBitrate par \<le>
        unat (m_adaptiveBitrateMaximum (stats (BitrateController_feedback par fb c)))"
      using F Cons.prems(2) by simp
    ultimately have "m_adaptiveBitrateMaximum
         (stats (BitrateController_run par fbs (BitrateController_feedback par fb c))) =
        m_adaptiveBitrateMaximum (stats (BitrateController_feedback par fb c))
      \<and> minimumBitrate par \<le>
          unat (m_bitrate (stats (BitrateController_run par fbs (BitrateController_feedback par fb c))))
      \<and> unat (m_bitrate (stats (BitrateController_run par fbs (BitrateController_feedback par fb c)))) \<le>
          unat (m_adaptiveBitrateMaximum (stats (BitrateController_feedback par fb c)))"
      using False by (rule Cons.IH)
    then show ?thesis using F by simp
  qed
qed

lemma SetBitrateParameters_adaptive:
  assumes "session_statistics s = Some st0"
  shows "\<exists>st'. session_statistics (SetBitrateParameters bitrate_mbs True bitrate_max s) = Some st'
          \<and> m_enableAdaptiveBitrate st' \<and> m_adaptiveBitrateMaximum st' = bitrate_max"
  using assms
  by (auto simp: SetBitrateParameters_def session_statistics_def Let_def split: option.splits)

text \<open>
  Claim C8. Once \<^verbatim>\<open>SetBitrateParameters\<close> has enabled adaptive bitrate with a
  maximum, the controller's maximum is that value, and for every non-empty sequence of
  frame reports the adjusted bitrate lies between the minimum and that maximum (the
  minimum being not above the maximum); the maximum itself is never changed by the
  adjustments.
\<close>

theorem adaptive_bitrate_within_bounds:
  "session_statistics s \<noteq> None
   \<and> session_statistics (SetBitrateParameters bitrate_mbs True bitrate_max s) = Some (stats c)
   \<and> minimumBitrate par \<le> unat bitrate_max \<and> fbs \<noteq> [] \<longrightarrow>
     m_adaptiveBitrateMaximum (stats c) = bitrate_max
     \<and> m_adaptiveBitrateMaximum (stats (BitrateController_run par fbs c)) = bitrate_max
     \<and> minimumBitrate par \<le> unat (m_bitrate (stats (BitrateController_run par fbs c)))
     \<and> unat (m_bitrate (stats (BitrateController_run par fbs c))) \<le> unat bitrate_max"
proof
  assume a: "session_statistics s \<noteq> None
   \<and> session_statistics (SetBitrateParameters bitrate_mbs True bitrate_max s) = Some (stats c)
   \<and> minimumBitrate par \<le> unat bitrate_max \<and> fbs \<noteq> []"
  then obtain st0 where "session_statistics s = Some st0" by auto
  from SetBitrateParameters_adaptive [OF this, of bitrate_mbs bitrate_max] a
  have en: "m_enableAdaptiveBitrate (stats c)"
    and mx: "m_adaptiveBitrateMaximum (stats c) = bitrate_max"
    by auto
  have lo: "minimumBitrate par \<le> unat (m_adaptiveBitrateMaximum (stats c))"
    using a mx by simp
  have ne: "fbs \<noteq> []" using a by simp
  from BitrateController_run_adaptive [OF en lo ne] mx
  show "m_adaptiveBitrateMaximum (stats c) = bitrate_max
     \<and> m_adaptiveBitrateMaximum (stats (BitrateController_run par fbs c)) = bitrate_max
     \<and> minimumBitrate par \<le> unat (m_bitrate (stats (BitrateController_run par fbs c)))
     \<and> unat (m_bitrate (stats (BitrateController_run par fbs c))) \<le> unat bitrate_max"
    by simp
qed


theorem adaptive_bitrate_within_bounds_witness:
  "session_statistics (SetBitrateParameters 50 True 80 provider_streaming) =
     Some (statistics0\<lparr>m_enableAdaptiveBitrate := True, m_adaptiveBitrateMaximum := 80\<rparr>)
   \<and> 5 \<le> unat (m_bitrate (stats (BitrateController_run bitrate_params0
             [feedback0 False, feedback0 False, feedback0 False, feedback0 False,
              feedback0 False, feedback0 False, feedback0 False]
             (controller0 (statistics0\<lparr>m_enableAdaptiveBitrate := True, m_adaptiveBitrateMaximum := 80\<rparr>)))))
   \<and> unat (m_bitrate (stats (BitrateController_run bitrate_params0
             [feedback0 False, feedback0 False, feedback0 False, feedback0 False,
              feedback0 False, feedback0 False, feedback0 False]
             (controller0 (statistics0\<lparr>m_enableAdaptiveBitrate := True, m_adaptiveBitrateMaximum := 80\<rparr>))))) \<le> 80
   \<and> m_bitrate (stats (BitrateController_run bitrate_params0
             [feedback0 False, feedback0 False]
             (controller0 (statistics0\<lparr>m_enableAdaptiveBitrate := True, m_adaptiveBitrateMaximum := 80\<rparr>)))) = 50
   \<and> m_bitrate (stats (BitrateController_run bitrate_params0
             [feedback0 False, feedback0 True]
             (controller0 (statistics0\<lparr>m_enableAdaptiveBitrate := True, m_adaptiveBitrateMaximum := 80\<rparr>)))) = 20"
proof -
  let ?st = "statistics0\<lparr>m_enableAdaptiveBitrate := True, m_adaptiveBitrateMaximum := 80\<rparr>"
  let ?fbs = "[feedback0 False, feedback0 False, feedback0 False, feedback0 False,
              feedback0 False, feedback0 False, feedback0 False]"
  have a: "session_statistics provider_streaming \<noteq> None"
    by (simp add: session_statistics_def provider_streaming_def hmd_streaming_def)
  have b: "session_statistics (SetBitrateParameters 50 True 80 provider_streaming) = Some ?st"
    by (simp add: session_statistics_def SetBitrateParameters_def provider_streaming_def
          hmd_streaming_def listener0_def Let_def)
  have c: "stats (controller0 ?st) = ?st" by (simp add: controller0_def)
  have d: "minimumBitrate bitrate_params0 \<le> unat (80 :: u64) \<and> ?fbs \<noteq> []"
    by (simp add: bitrate_params0_def)
  note T = adaptive_bitrate_within_bounds [of provider_streaming 50 80 "controller0 ?st"
      bitrate_params0 ?fbs]
  have t: "minimumBitrate bitrate_params0 \<le>
             unat (m_bitrate (stats (BitrateController_run bitrate_params0 ?fbs (controller0 ?st))))
    \<and> unat (m_bitrate (stats (BitrateController_run bitrate_params0 ?fbs (controller0 ?st)))) \<le> unat (80 :: u64)"
    using T a b c d by (simp only:) blast
  have m: "minimumBitrate bitrate_params0 = 5" "unat (80 :: u64) = 80"
    by (simp_all add: bitrate_params0_def)
  have e: "m_bitrate (stats (BitrateController_run bitrate_params0
             [feedback0 False, feedback0 False] (controller0 ?st))) = 50"
    "m_bitrate (stats (BitrateController_run bitrate_params0
             [feedback0 False, feedback0 True] (controller0 ?st))) = 20"
    by (simp_all add: BitrateController_feedback_def controller0_def statistics0_def
          bitrate_params0_def feedback0_def clamp_bitrate_def Let_def)
  show ?thesis using b t e unfolding m by blast
qed


end
